theory Spec2Isabelle
  imports Main "HOL-Library.Word" "HOL-Library.Sublist" "HOL-Library.Char_ord"
    "HOL-Library.List_Lexorder"
begin

unbundle bit_operations_syntax

section \<open>Routing flags\<close>

text \<open>
  The program in \<^verbatim>\<open>route/main_darwin.go\<close> is built for Darwin only. The flag
  constants it tests are those of Go's \<^verbatim>\<open>syscall\<close> package for that platform
  (the values of \<^verbatim>\<open>net/route.h\<close>). The flags field of a route message is a Go
  \<^verbatim>\<open>int\<close>; the only operation applied to it is a bitwise and with a positive
  constant, which two's-complement \<^typ>\<open>int\<close> computes bit for bit.
\<close>

definition RTF_UP :: int where "RTF_UP = 0x1"
definition RTF_GATEWAY :: int where "RTF_GATEWAY = 0x2"
definition RTF_HOST :: int where "RTF_HOST = 0x4"
definition RTF_REJECT :: int where "RTF_REJECT = 0x8"
definition RTF_DYNAMIC :: int where "RTF_DYNAMIC = 0x10"
definition RTF_MODIFIED :: int where "RTF_MODIFIED = 0x20"
definition RTF_DONE :: int where "RTF_DONE = 0x40"
definition RTF_DELCLONE :: int where "RTF_DELCLONE = 0x80"
definition RTF_CLONING :: int where "RTF_CLONING = 0x100"
definition RTF_XRESOLVE :: int where "RTF_XRESOLVE = 0x200"
definition RTF_LLINFO :: int where "RTF_LLINFO = 0x400"
definition RTF_STATIC :: int where "RTF_STATIC = 0x800"
definition RTF_BLACKHOLE :: int where "RTF_BLACKHOLE = 0x1000"
definition RTF_PROTO2 :: int where "RTF_PROTO2 = 0x4000"
definition RTF_PROTO1 :: int where "RTF_PROTO1 = 0x8000"
definition RTF_PRCLONING :: int where "RTF_PRCLONING = 0x10000"
definition RTF_WASCLONED :: int where "RTF_WASCLONED = 0x20000"
definition RTF_PROTO3 :: int where "RTF_PROTO3 = 0x40000"
definition RTF_PINNED :: int where "RTF_PINNED = 0x100000"
definition RTF_LOCAL :: int where "RTF_LOCAL = 0x200000"
definition RTF_BROADCAST :: int where "RTF_BROADCAST = 0x400000"
definition RTF_MULTICAST :: int where "RTF_MULTICAST = 0x800000"
definition RTF_IFSCOPE :: int where "RTF_IFSCOPE = 0x1000000"
definition RTF_CONDEMNED :: int where "RTF_CONDEMNED = 0x2000000"
definition RTF_IFREF :: int where "RTF_IFREF = 0x4000000"

definition isFlagGateway :: "int \<Rightarrow> bool" where
  "isFlagGateway t \<longleftrightarrow> t AND RTF_GATEWAY = RTF_GATEWAY"

definition isFlagHost :: "int \<Rightarrow> bool" where
  "isFlagHost t \<longleftrightarrow> t AND RTF_HOST = RTF_HOST"

definition isFlagIFRef :: "int \<Rightarrow> bool" where
  "isFlagIFRef t \<longleftrightarrow> t AND RTF_IFREF = RTF_IFREF"

text \<open>
  \<^verbatim>\<open>getFlags\<close> starts from the empty slice and runs twenty-five \<^verbatim>\<open>if\<close>
  statements in the order of the source text, each appending one name.
\<close>

definition getFlags :: "int \<Rightarrow> string list" where
  "getFlags t =
    (let ret = [];
         ret = (if t AND RTF_BLACKHOLE = RTF_BLACKHOLE then ret @ [''RTF_BLACKHOLE''] else ret);
         ret = (if t AND RTF_BROADCAST = RTF_BROADCAST then ret @ [''RTF_BROADCAST''] else ret);
         ret = (if t AND RTF_CLONING = RTF_CLONING then ret @ [''RTF_CLONING''] else ret);
         ret = (if t AND RTF_CONDEMNED = RTF_CONDEMNED then ret @ [''RTF_CONDEMNED''] else ret);
         ret = (if t AND RTF_DELCLONE = RTF_DELCLONE then ret @ [''RTF_DELCLONE''] else ret);
         ret = (if t AND RTF_DONE = RTF_DONE then ret @ [''RTF_DONE''] else ret);
         ret = (if t AND RTF_DYNAMIC = RTF_DYNAMIC then ret @ [''RTF_DYNAMIC''] else ret);
         ret = (if t AND RTF_GATEWAY = RTF_GATEWAY then ret @ [''RTF_GATEWAY''] else ret);
         ret = (if t AND RTF_HOST = RTF_HOST then ret @ [''RTF_HOST''] else ret);
         ret = (if t AND RTF_IFREF = RTF_IFREF then ret @ [''RTF_IFREF''] else ret);
         ret = (if t AND RTF_IFSCOPE = RTF_IFSCOPE then ret @ [''RTF_IFSCOPE''] else ret);
         ret = (if t AND RTF_LLINFO = RTF_LLINFO then ret @ [''RTF_LLINFO''] else ret);
         ret = (if t AND RTF_LOCAL = RTF_LOCAL then ret @ [''RTF_LOCAL''] else ret);
         ret = (if t AND RTF_MODIFIED = RTF_MODIFIED then ret @ [''RTF_MODIFIED''] else ret);
         ret = (if t AND RTF_MULTICAST = RTF_MULTICAST then ret @ [''RTF_MULTICAST''] else ret);
         ret = (if t AND RTF_PINNED = RTF_PINNED then ret @ [''RTF_PINNED''] else ret);
         ret = (if t AND RTF_PRCLONING = RTF_PRCLONING then ret @ [''RTF_PRCLONING''] else ret);
         ret = (if t AND RTF_PROTO1 = RTF_PROTO1 then ret @ [''RTF_PROTO1''] else ret);
         ret = (if t AND RTF_PROTO2 = RTF_PROTO2 then ret @ [''RTF_PROTO2''] else ret);
         ret = (if t AND RTF_PROTO3 = RTF_PROTO3 then ret @ [''RTF_PROTO3''] else ret);
         ret = (if t AND RTF_REJECT = RTF_REJECT then ret @ [''RTF_REJECT''] else ret);
         ret = (if t AND RTF_STATIC = RTF_STATIC then ret @ [''RTF_STATIC''] else ret);
         ret = (if t AND RTF_UP = RTF_UP then ret @ [''RTF_UP''] else ret);
         ret = (if t AND RTF_WASCLONED = RTF_WASCLONED then ret @ [''RTF_WASCLONED''] else ret);
         ret = (if t AND RTF_XRESOLVE = RTF_XRESOLVE then ret @ [''RTF_XRESOLVE''] else ret)
     in ret)"

text \<open>
  The same scan as a table: the pairs of constant and name, in the order in which
  \<^const>\<open>getFlags\<close> tests them.
\<close>

definition flag_table :: "(int \<times> string) list" where
  "flag_table =
    [(RTF_BLACKHOLE, ''RTF_BLACKHOLE''), (RTF_BROADCAST, ''RTF_BROADCAST''),
     (RTF_CLONING, ''RTF_CLONING''), (RTF_CONDEMNED, ''RTF_CONDEMNED''),
     (RTF_DELCLONE, ''RTF_DELCLONE''), (RTF_DONE, ''RTF_DONE''),
     (RTF_DYNAMIC, ''RTF_DYNAMIC''), (RTF_GATEWAY, ''RTF_GATEWAY''),
     (RTF_HOST, ''RTF_HOST''), (RTF_IFREF, ''RTF_IFREF''),
     (RTF_IFSCOPE, ''RTF_IFSCOPE''), (RTF_LLINFO, ''RTF_LLINFO''),
     (RTF_LOCAL, ''RTF_LOCAL''), (RTF_MODIFIED, ''RTF_MODIFIED''),
     (RTF_MULTICAST, ''RTF_MULTICAST''), (RTF_PINNED, ''RTF_PINNED''),
     (RTF_PRCLONING, ''RTF_PRCLONING''), (RTF_PROTO1, ''RTF_PROTO1''),
     (RTF_PROTO2, ''RTF_PROTO2''), (RTF_PROTO3, ''RTF_PROTO3''),
     (RTF_REJECT, ''RTF_REJECT''), (RTF_STATIC, ''RTF_STATIC''),
     (RTF_UP, ''RTF_UP''), (RTF_WASCLONED, ''RTF_WASCLONED''),
     (RTF_XRESOLVE, ''RTF_XRESOLVE'')]"

definition flag_names :: "string list" where
  "flag_names = map snd flag_table"

definition flag_set :: "int \<Rightarrow> int \<times> string \<Rightarrow> bool" where
  "flag_set t e \<longleftrightarrow> t AND fst e = fst e"

section \<open>Formatting verbs\<close>

text \<open>
  The verbs of Go's \<^verbatim>\<open>fmt\<close> package that the program uses: \<^verbatim>\<open>%d\<close> and
  \<^verbatim>\<open>%x\<close> print an integer with the fewest digits, \<^verbatim>\<open>%x\<close> in lower case;
  \<^verbatim>\<open>%v\<close> of a string slice prints the elements between square brackets,
  separated by one space.
\<close>

definition digit :: "nat \<Rightarrow> char" where
  "digit n = ''0123456789abcdef'' ! n"

function fmt_base :: "nat \<Rightarrow> nat \<Rightarrow> string" where
  "fmt_base b u =
    (if 2 \<le> b \<and> b \<le> u then fmt_base b (u div b) @ [digit (u mod b)] else [digit u])"
  by pat_completeness auto
termination
  by (relation "measure (\<lambda>(b, u). u)") auto

declare fmt_base.simps [simp del]

definition fmt_d :: "int \<Rightarrow> string" where
  "fmt_d i = (if i < 0 then ''-'' @ fmt_base 10 (nat (- i)) else fmt_base 10 (nat i))"

definition fmt_d_byte :: "8 word \<Rightarrow> string" where
  "fmt_d_byte b = fmt_base 10 (unat b)"

definition fmt_x_byte :: "8 word \<Rightarrow> string" where
  "fmt_x_byte b = fmt_base 16 (unat b)"

fun Join :: "string list \<Rightarrow> string \<Rightarrow> string" where
  "Join [] sep = []"
| "Join [x] sep = x"
| "Join (x # y # ys) sep = x @ sep @ Join (y # ys) sep"

definition fmt_v_strings :: "string list \<Rightarrow> string" where
  "fmt_v_strings xs = ''['' @ Join xs '' '' @ '']''"

section \<open>Addresses and route messages\<close>

text \<open>
  The address types of \<^verbatim>\<open>golang.org/x/net/route\<close>. A slot of
  \<^verbatim>\<open>RouteMessage.Addrs\<close> is an interface value: \<^const>\<open>None\<close> is the nil
  interface, \<^const>\<open>Some\<close> carries one of the four concrete address types.
\<close>

datatype addr =
    Inet4Addr "8 word" "8 word" "8 word" "8 word"
  | Inet6Addr "8 word list" int
  | LinkAddr int string "8 word list"
  | DefaultAddr int "8 word list"

definition AF_INET :: int where "AF_INET = 0x2"
definition AF_LINK :: int where "AF_LINK = 0x12"
definition AF_INET6 :: int where "AF_INET6 = 0x1e"

fun Family :: "addr \<Rightarrow> int" where
  "Family (Inet4Addr _ _ _ _) = AF_INET"
| "Family (Inet6Addr _ _) = AF_INET6"
| "Family (LinkAddr _ _ _) = AF_LINK"
| "Family (DefaultAddr af _) = af"

record route_message =
  Type :: int
  Flags :: int
  Index :: int
  Addrs :: "addr option list"

datatype message = RouteMessage route_message | OtherMessage

section \<open>Prefix length of a mask\<close>

text \<open>
  \<^verbatim>\<open>net.IPv4Mask(a, b, c, d).Size()\<close> of Go's standard library. The inner loop
  of \<^verbatim>\<open>simpleMaskLength\<close> counts the leading one-bits of the first byte that is
  not \<^verbatim>\<open>0xff\<close>, shifting the byte left; the rest of that byte and all later bytes
  must then be zero, or the result is \<^verbatim>\<open>-1\<close>, which \<^verbatim>\<open>Size\<close> turns into
  \<^verbatim>\<open>0, 0\<close>.
\<close>

definition IPv4Mask :: "8 word \<Rightarrow> 8 word \<Rightarrow> 8 word \<Rightarrow> 8 word \<Rightarrow> 8 word list" where
  "IPv4Mask a b c d = [a, b, c, d]"

definition bits8 :: "8 word \<Rightarrow> bool list" where
  "bits8 v = [bit v 7, bit v 6, bit v 5, bit v 4, bit v 3, bit v 2, bit v 1, bit v 0]"

text \<open>\<^verbatim>\<open>for v&0x80 != 0 { n++; v <<= 1 }\<close>\<close>

function ones_loop :: "nat \<Rightarrow> 8 word \<Rightarrow> nat \<times> 8 word" where
  "ones_loop n v = (if v AND 0x80 \<noteq> 0 then ones_loop (n + 1) (push_bit 1 v) else (n, v))"
  by pat_completeness auto
termination
proof (relation "measure (\<lambda>(n, v). length (filter id (bits8 v)))")
  show "wf (measure (\<lambda>(n, v). length (filter id (bits8 v))))"
    by (rule wf_measure)
next
  fix n :: nat and v :: "8 word"
  assume "v AND 0x80 \<noteq> 0"
  with and_exp_eq_0_iff_not_bit [of v 7] have top: "bit v 7"
    by simp
  have shl: "bits8 (push_bit 1 v) = tl (bits8 v) @ [False]"
    unfolding bits8_def by (simp only: bit_push_bit_iff) simp
  from top have "length (filter id (tl (bits8 v) @ [False])) < length (filter id (bits8 v))"
    by (simp add: bits8_def)
  then have "length (filter id (bits8 (push_bit 1 v))) < length (filter id (bits8 v))"
    by (simp only: shl)
  then show "((n + 1, push_bit 1 v), (n, v)) \<in> measure (\<lambda>(n, v). length (filter id (bits8 v)))"
    by (simp only: in_measure split)
qed

declare ones_loop.simps [simp del]

text \<open>\<^verbatim>\<open>for i++; i < len(mask); i++ { if mask[i] != 0 { return -1 } }\<close>\<close>

fun rest_nonzero :: "8 word list \<Rightarrow> bool" where
  "rest_nonzero [] = False"
| "rest_nonzero (b # bs) = (if b \<noteq> 0 then True else rest_nonzero bs)"

fun simpleMaskLength_from :: "nat \<Rightarrow> 8 word list \<Rightarrow> int" where
  "simpleMaskLength_from n [] = int n"
| "simpleMaskLength_from n (v # rest) =
    (if v = 0xff then simpleMaskLength_from (n + 8) rest
     else case ones_loop n v of (n', v') \<Rightarrow>
       if v' \<noteq> 0 then - 1
       else if rest_nonzero rest then - 1
       else int n')"

definition simpleMaskLength :: "8 word list \<Rightarrow> int" where
  "simpleMaskLength m = simpleMaskLength_from 0 m"

definition Size :: "8 word list \<Rightarrow> int \<times> int" where
  "Size m =
    (let ones = simpleMaskLength m; bits = int (length m) * 8
     in if ones = - 1 then (0, 0) else (ones, bits))"

text \<open>
  The bits of a mask, most significant first, as the claim about the prefix length reads
  them: the four octets as one big-endian value.
\<close>

definition mask_bits :: "8 word list \<Rightarrow> bool list" where
  "mask_bits m = concat (map bits8 m)"



definition leading_ones :: "bool list \<Rightarrow> nat" where
  "leading_ones bs = length (takeWhile id bs)"

definition contiguous :: "bool list \<Rightarrow> bool" where
  "contiguous bs \<longleftrightarrow> list_all Not (dropWhile id bs)"

section \<open>The record mapper\<close>

text \<open>
  What \<^verbatim>\<open>dump\<close> can do with one message. It returns silently, or prints one line
  with \<^verbatim>\<open>fmt.Printf\<close> and returns, or writes one row to the writer. The lines it
  prints embed \<^verbatim>\<open>%v\<close> renderings of library values; the model keeps which line is
  printed. \<^verbatim>\<open>Banner\<close> and \<^verbatim>\<open>NonRouteMessage\<close> are the two lines that
  \<^verbatim>\<open>main\<close> prints with \<^verbatim>\<open>fmt.Println\<close>.
\<close>

datatype diag =
    Banner
  | NonRouteMessage
  | NoInterface int
  | TooFewAddrs
  | DestNotInet4
  | MaskNotAFINET
  | MaskNotInet4
  | GatewayInetUnknown
  | GatewayLinkUnknown
  | GatewayUnknown

text \<open>
  A row carries the four operands of the final \<^verbatim>\<open>fmt.Sprintf\<close>: the destination,
  the gateway, the interface name and the flag names.
\<close>

datatype outcome = Dropped | Skipped diag | Row string string string "string list" | Panic

text \<open>
  Indexing a slice panics out of range, and so does a method call on a nil interface.
  A type assertion with \<^verbatim>\<open>ok\<close> on a nil interface only yields \<^verbatim>\<open>false\<close>.
\<close>

definition index :: "'a list \<Rightarrow> nat \<Rightarrow> 'a option" where
  "index xs k = (if k < length xs then Some (xs ! k) else None)"

text \<open>
  \<^verbatim>\<open>len := 0; for i, a := range msg.Addrs { if a == nil { len = i; break } }\<close>
\<close>

fun first_nil :: "nat \<Rightarrow> addr option list \<Rightarrow> nat" where
  "first_nil i [] = 0"
| "first_nil i (None # as) = i"
| "first_nil i (Some a # as) = first_nil (Suc i) as"

definition dotted :: "8 word \<Rightarrow> 8 word \<Rightarrow> 8 word \<Rightarrow> 8 word \<Rightarrow> string" where
  "dotted a b c d =
    fmt_d_byte a @ ''.'' @ fmt_d_byte b @ ''.'' @ fmt_d_byte c @ ''.'' @ fmt_d_byte d"

text \<open>Lines 107 to 130 of \<^verbatim>\<open>dump\<close>: the destination string, or the early return.\<close>

definition destination_of :: "nat \<Rightarrow> addr option list \<Rightarrow> outcome + string" where
  "destination_of len as =
    (case index as 0 of
       None \<Rightarrow> Inl Panic
     | Some (Some (Inet4Addr d0 d1 d2 d3)) \<Rightarrow>
         let destination = dotted d0 d1 d2 d3 in
         if len = 3 then
           (case index as 2 of
              None \<Rightarrow> Inl Panic
            | Some None \<Rightarrow> Inl Panic
            | Some (Some slot2) \<Rightarrow>
                if Family slot2 \<noteq> AF_INET then Inl (Skipped MaskNotAFINET)
                else (case slot2 of
                   Inet4Addr a0 a1 a2 a3 \<Rightarrow>
                     let l = fst (Size (IPv4Mask a0 a1 a2 a3)) in
                     if l = 0 then Inr ''default''
                     else Inr (destination @ ''/'' @ fmt_d l)
                 | _ \<Rightarrow> Inl (Skipped MaskNotInet4)))
         else Inr destination
     | Some _ \<Rightarrow> Inl (Skipped DestNotInet4))"

text \<open>Lines 132 to 158 of \<^verbatim>\<open>dump\<close>: the gateway string, or the early return.\<close>

definition gateway_of :: "nat \<Rightarrow> addr option list \<Rightarrow> outcome + string" where
  "gateway_of len as =
    (case index as 1 of
       None \<Rightarrow> Inl Panic
     | Some None \<Rightarrow> Inl Panic
     | Some (Some slot1) \<Rightarrow>
         if Family slot1 = AF_INET then
           (case slot1 of
              Inet4Addr g0 g1 g2 g3 \<Rightarrow> Inr (dotted g0 g1 g2 g3)
            | _ \<Rightarrow> Inl (Skipped GatewayInetUnknown))
         else if Family slot1 = AF_LINK then
           (case slot1 of
              LinkAddr link_Index link_Name link_Addr \<Rightarrow>
                if len = 3 then Inr (''link#'' @ fmt_d link_Index)
                else Inr (Join (map fmt_x_byte link_Addr) '':'')
            | _ \<Rightarrow> Inl (Skipped GatewayLinkUnknown))
         else Inl (Skipped GatewayUnknown))"

text \<open>
  \<^verbatim>\<open>dump\<close>. The interface table of the operating system is the parameter
  \<^verbatim>\<open>InterfaceByIndex\<close>, from an index to the interface's name; \<^const>\<open>None\<close> is
  the error return.
\<close>

definition dump :: "(int \<rightharpoonup> string) \<Rightarrow> nat \<Rightarrow> route_message \<Rightarrow> outcome" where
  "dump InterfaceByIndex i msg =
    (if isFlagGateway (Flags msg) \<and> isFlagHost (Flags msg) \<and> isFlagIFRef (Flags msg) then Dropped
     else case InterfaceByIndex (Index msg) of
       None \<Rightarrow> Skipped (NoInterface (Index msg))
     | Some intf_Name \<Rightarrow>
         let len = first_nil 0 (Addrs msg) in
         if len < 2 then Skipped TooFewAddrs
         else case destination_of len (Addrs msg) of
           Inl out \<Rightarrow> out
         | Inr destination \<Rightarrow>
             (case gateway_of len (Addrs msg) of
                Inl out \<Rightarrow> out
              | Inr gateway \<Rightarrow>
                  Row destination gateway intf_Name (getFlags (Flags msg))))"

text \<open>
  The bytes of a row: \<^verbatim>\<open>fmt.Sprintf("%v\t%v\t%v\t%v\n", destination, gateway,
  intf.Name, getFlags(msg.Flags))\<close>.
\<close>

definition row_text :: "string \<Rightarrow> string \<Rightarrow> string \<Rightarrow> string list \<Rightarrow> string" where
  "row_text destination gateway intf_Name flags =
    destination @ [CHR 0x09] @ gateway @ [CHR 0x09] @ intf_Name @ [CHR 0x09] @
    fmt_v_strings flags @ [CHR 0x0A]"

section \<open>The program\<close>

text \<open>
  What a run leaves behind. \<^verbatim>\<open>fmt.Println\<close> and \<^verbatim>\<open>fmt.Printf\<close> write to
  the standard output; the rows go to a \<^verbatim>\<open>tabwriter.Writer\<close> whose sink is the
  standard output as well, and which aligns the cells when the deferred
  \<^verbatim>\<open>Flush\<close> runs; the model keeps the byte strings handed to the writer.
  \<^verbatim>\<open>log.Fatal\<close> writes the error to the standard error and exits with status 1,
  before the writer exists. A panic exits with status 2.
\<close>

record 'e world =
  stdout :: "diag list"
  table :: "string list"
  stderr :: "'e list"
  status :: int

definition header :: string where
  "header = ''Destination'' @ [CHR 0x09] @ ''Gateway'' @ [CHR 0x09] @ ''Netif'' @ [CHR 0x09] @
    ''Flags'' @ [CHR 0x0A]"

text \<open>The loop of \<^verbatim>\<open>main\<close> over the parsed messages.\<close>

fun range_msgs :: "(int \<rightharpoonup> string) \<Rightarrow> nat \<Rightarrow> message list \<Rightarrow> 'e world \<Rightarrow> 'e world" where
  "range_msgs ifs i [] w = w"
| "range_msgs ifs i (RouteMessage m # msgs) w =
    (case dump ifs i m of
       Dropped \<Rightarrow> range_msgs ifs (Suc i) msgs w
     | Skipped d \<Rightarrow> range_msgs ifs (Suc i) msgs (w\<lparr>stdout := stdout w @ [d]\<rparr>)
     | Row d g n fs \<Rightarrow>
         range_msgs ifs (Suc i) msgs (w\<lparr>table := table w @ [row_text d g n fs]\<rparr>)
     | Panic \<Rightarrow> w\<lparr>status := 2\<rparr>)"
| "range_msgs ifs i (OtherMessage # msgs) w =
    range_msgs ifs (Suc i) msgs (w\<lparr>stdout := stdout w @ [NonRouteMessage]\<rparr>)"

text \<open>
  \<^verbatim>\<open>main\<close>. The two library calls are parameters: the result of
  \<^verbatim>\<open>route.FetchRIB\<close>, an error or the raw buffer, and \<^verbatim>\<open>route.ParseRIB\<close>,
  from the buffer to an error or the messages.
\<close>

definition main ::
  "'e + 8 word list \<Rightarrow> (8 word list \<Rightarrow> 'e + message list) \<Rightarrow> (int \<rightharpoonup> string) \<Rightarrow> 'e world" where
  "main FetchRIB ParseRIB InterfaceByIndex =
    (let w = \<lparr>stdout = [Banner], table = [], stderr = [], status = 0\<rparr> in
     case FetchRIB of
       Inl err \<Rightarrow> w\<lparr>stderr := [err], status := 1\<rparr>
     | Inr pkt \<Rightarrow>
         (case ParseRIB pkt of
            Inl err \<Rightarrow> w\<lparr>stderr := [err], status := 1\<rparr>
          | Inr msgs \<Rightarrow> range_msgs InterfaceByIndex 0 msgs (w\<lparr>table := [header]\<rparr>)))"

section \<open>Notions used in the statements\<close>

text \<open>The number of slots that precede the first nil slot.\<close>

definition populated :: "addr option list \<Rightarrow> nat" where
  "populated as = length (takeWhile (\<lambda>a. a \<noteq> None) as)"

text \<open>
  The lines that the loop of \<^verbatim>\<open>main\<close> prints on the standard output, and the
  rows that it writes to the table.
\<close>

fun printed :: "(int \<rightharpoonup> string) \<Rightarrow> nat \<Rightarrow> message list \<Rightarrow> diag list" where
  "printed ifs i [] = []"
| "printed ifs i (RouteMessage m # msgs) =
    (case dump ifs i m of Skipped d \<Rightarrow> [d] | _ \<Rightarrow> []) @ printed ifs (Suc i) msgs"
| "printed ifs i (OtherMessage # msgs) = NonRouteMessage # printed ifs (Suc i) msgs"

fun written :: "(int \<rightharpoonup> string) \<Rightarrow> nat \<Rightarrow> message list \<Rightarrow> string list" where
  "written ifs i [] = []"
| "written ifs i (RouteMessage m # msgs) =
    (case dump ifs i m of Row d g n fs \<Rightarrow> [row_text d g n fs] | _ \<Rightarrow> []) @
    written ifs (Suc i) msgs"
| "written ifs i (OtherMessage # msgs) = written ifs (Suc i) msgs"

text \<open>The bit position of each constant of the flag table.\<close>

definition flag_bits :: "nat list" where
  "flag_bits =
    [12, 22, 8, 25, 7, 6, 4, 1, 2, 26, 24, 10, 21, 5, 23, 20, 16, 15, 14, 18, 3, 11, 0, 17, 9]"



section \<open>Example messages\<close>

text \<open>
  An interface table with one interface, and route messages with eight address slots, as
  \<^verbatim>\<open>route.ParseRIB\<close> builds them (destination, gateway, netmask, genmask and four
  more).
\<close>

definition en0 :: "int \<rightharpoonup> string" where
  "en0 = [4 \<mapsto> ''en0'']"

definition default_route :: route_message where
  "default_route =
    \<lparr>Type = 4, Flags = RTF_UP OR RTF_GATEWAY, Index = 4,
     Addrs = [Some (Inet4Addr 0 0 0 0), Some (Inet4Addr 10 0 0 1), Some (Inet4Addr 0 0 0 0),
       None, None, None, None, None]\<rparr>"

definition self_route :: route_message where
  "self_route =
    \<lparr>Type = 4, Flags = RTF_UP OR RTF_GATEWAY OR RTF_HOST OR RTF_IFREF, Index = 4,
     Addrs = [Some (Inet4Addr 10 0 0 7), Some (Inet4Addr 10 0 0 1), None, None, None, None,
       None, None]\<rparr>"



definition net_route :: route_message where
  "net_route =
    \<lparr>Type = 4, Flags = RTF_UP, Index = 4,
     Addrs = [Some (Inet4Addr 10 0 0 0), Some (LinkAddr 7 ''en1'' [0x02, 0xab]),
       Some (Inet4Addr 255 255 255 0), None, None, None, None, None]\<rparr>"

definition host_route :: route_message where
  "host_route =
    \<lparr>Type = 4, Flags = RTF_UP, Index = 4,
     Addrs = [Some (Inet4Addr 10 0 0 9), Some (LinkAddr 7 ''en1'' [0x02, 0xab]),
       None, None, None, None, None, None]\<rparr>"



definition genmask_route :: route_message where
  "genmask_route =
    \<lparr>Type = 4, Flags = RTF_UP, Index = 4,
     Addrs = [Some (Inet4Addr 10 0 0 0), Some (LinkAddr 7 ''en1'' [0x02, 0xab]),
       Some (Inet4Addr 255 255 255 0), Some (Inet4Addr 0 0 0 0), None, None, None, None]\<rparr>"

definition all_slots_route :: route_message where
  "all_slots_route =
    \<lparr>Type = 4, Flags = RTF_UP OR RTF_GATEWAY, Index = 4,
     Addrs = [Some (Inet4Addr 10 0 0 0), Some (Inet4Addr 10 0 0 1),
       Some (Inet4Addr 255 255 255 0), Some (Inet4Addr 0 0 0 0),
       Some (LinkAddr 4 ''en0'' [0x02, 0xab]), Some (Inet4Addr 10 0 0 5),
       Some (Inet4Addr 10 0 0 1), Some (Inet4Addr 10 0 0 255)]\<rparr>"

section \<open>The decoder as a scan of the table\<close>

lemmas RTF_defs =
  RTF_UP_def RTF_GATEWAY_def RTF_HOST_def RTF_REJECT_def RTF_DYNAMIC_def RTF_MODIFIED_def
  RTF_DONE_def RTF_DELCLONE_def RTF_CLONING_def RTF_XRESOLVE_def RTF_LLINFO_def
  RTF_STATIC_def RTF_BLACKHOLE_def RTF_PROTO2_def RTF_PROTO1_def RTF_PRCLONING_def
  RTF_WASCLONED_def RTF_PROTO3_def RTF_PINNED_def RTF_LOCAL_def RTF_BROADCAST_def
  RTF_MULTICAST_def RTF_IFSCOPE_def RTF_CONDEMNED_def RTF_IFREF_def

lemma append_if_name: "(if c then r @ [x] else r) = r @ (if c then [x] else [])"
  by simp

lemma concat_if_filter:
  "concat (map (\<lambda>e. if P e then [f e] else []) xs) = map f (filter P xs)"
  by (induction xs) simp_all

lemma getFlags_concat:
  "getFlags t = concat (map (\<lambda>e. if flag_set t e then [snd e] else []) flag_table)"
proof -
  have "getFlags t =
      (if t AND RTF_BLACKHOLE = RTF_BLACKHOLE then [''RTF_BLACKHOLE''] else []) @
      (if t AND RTF_BROADCAST = RTF_BROADCAST then [''RTF_BROADCAST''] else []) @
      (if t AND RTF_CLONING = RTF_CLONING then [''RTF_CLONING''] else []) @
      (if t AND RTF_CONDEMNED = RTF_CONDEMNED then [''RTF_CONDEMNED''] else []) @
      (if t AND RTF_DELCLONE = RTF_DELCLONE then [''RTF_DELCLONE''] else []) @
      (if t AND RTF_DONE = RTF_DONE then [''RTF_DONE''] else []) @
      (if t AND RTF_DYNAMIC = RTF_DYNAMIC then [''RTF_DYNAMIC''] else []) @
      (if t AND RTF_GATEWAY = RTF_GATEWAY then [''RTF_GATEWAY''] else []) @
      (if t AND RTF_HOST = RTF_HOST then [''RTF_HOST''] else []) @
      (if t AND RTF_IFREF = RTF_IFREF then [''RTF_IFREF''] else []) @
      (if t AND RTF_IFSCOPE = RTF_IFSCOPE then [''RTF_IFSCOPE''] else []) @
      (if t AND RTF_LLINFO = RTF_LLINFO then [''RTF_LLINFO''] else []) @
      (if t AND RTF_LOCAL = RTF_LOCAL then [''RTF_LOCAL''] else []) @
      (if t AND RTF_MODIFIED = RTF_MODIFIED then [''RTF_MODIFIED''] else []) @
      (if t AND RTF_MULTICAST = RTF_MULTICAST then [''RTF_MULTICAST''] else []) @
      (if t AND RTF_PINNED = RTF_PINNED then [''RTF_PINNED''] else []) @
      (if t AND RTF_PRCLONING = RTF_PRCLONING then [''RTF_PRCLONING''] else []) @
      (if t AND RTF_PROTO1 = RTF_PROTO1 then [''RTF_PROTO1''] else []) @
      (if t AND RTF_PROTO2 = RTF_PROTO2 then [''RTF_PROTO2''] else []) @
      (if t AND RTF_PROTO3 = RTF_PROTO3 then [''RTF_PROTO3''] else []) @
      (if t AND RTF_REJECT = RTF_REJECT then [''RTF_REJECT''] else []) @
      (if t AND RTF_STATIC = RTF_STATIC then [''RTF_STATIC''] else []) @
      (if t AND RTF_UP = RTF_UP then [''RTF_UP''] else []) @
      (if t AND RTF_WASCLONED = RTF_WASCLONED then [''RTF_WASCLONED''] else []) @
      (if t AND RTF_XRESOLVE = RTF_XRESOLVE then [''RTF_XRESOLVE''] else [])"
    unfolding getFlags_def
    apply (simp only: append_if_name)
    apply (simp only: Let_def append_Nil append_assoc)
    done
  also have "\<dots> = concat (map (\<lambda>e. if flag_set t e then [snd e] else []) flag_table)"
    unfolding flag_table_def flag_set_def
    by (simp only: list.map concat.simps fst_conv snd_conv append_Nil2)
  finally show ?thesis .
qed

lemma getFlags_table: "getFlags t = map snd (filter (flag_set t) flag_table)"
  unfolding getFlags_concat by (rule concat_if_filter)


lemma distinct_flag_names: "distinct flag_names"
  by (simp add: flag_names_def flag_table_def)

lemma length_flag_names: "length flag_names = 25"
  by (simp add: flag_names_def flag_table_def)

lemma flag_table_bits: "map fst flag_table = map (\<lambda>k. 2 ^ k) flag_bits"
  by (simp add: flag_table_def flag_bits_def RTF_defs)

lemma flag_single_bit:
  assumes "e \<in> set flag_table"
  shows "\<exists>k\<in>set flag_bits. fst e = 2 ^ k"
proof -
  from assms have "fst e \<in> set (map fst flag_table)"
    by simp
  then show ?thesis
    unfolding flag_table_bits by auto
qed

lemma subseq_getFlags: "subseq (getFlags t) flag_names"
  unfolding getFlags_table flag_names_def by (intro subseq_map subseq_filter_left)

lemma distinct_getFlags: "distinct (getFlags t)"
  unfolding getFlags_table using distinct_flag_names [unfolded flag_names_def]
  by (rule distinct_map_filter)

lemma getFlags_member:
  assumes "e \<in> set flag_table"
  shows "snd e \<in> set (getFlags t) \<longleftrightarrow> t AND fst e = fst e"
proof
  assume "snd e \<in> set (getFlags t)"
  then obtain e' where e': "e' \<in> set flag_table" "flag_set t e'" "snd e' = snd e"
    unfolding getFlags_table by auto
  from distinct_flag_names have "inj_on snd (set flag_table)"
    by (simp add: flag_names_def distinct_map)
  with e' assms have "e' = e"
    by (auto dest: inj_onD)
  with e' show "t AND fst e = fst e"
    by (simp add: flag_set_def)
next
  assume "t AND fst e = fst e"
  with assms show "snd e \<in> set (getFlags t)"
    unfolding getFlags_table by (auto simp: flag_set_def intro!: image_eqI [of _ _ e])
qed

lemma and_single_bit: "(t :: int) AND 2 ^ k = 2 ^ k \<longleftrightarrow> bit t k"
proof
  assume "t AND 2 ^ k = 2 ^ k"
  then have "bit (t AND 2 ^ k) k = bit (2 ^ k :: int) k"
    by simp
  then show "bit t k"
    by (simp add: bit_and_iff bit_exp_iff)
next
  assume "bit t k"
  then show "t AND 2 ^ k = 2 ^ k"
    by (intro bit_eqI) (auto simp: bit_and_iff bit_exp_iff)
qed

lemma getFlags_known_bits:
  assumes "\<forall>k\<in>set flag_bits. bit t k = bit t' k"
  shows "getFlags t = getFlags t'"
proof -
  have "filter (flag_set t) flag_table = filter (flag_set t') flag_table"
  proof (rule filter_cong [OF refl])
    fix e
    assume "e \<in> set flag_table"
    then obtain k where "k \<in> set flag_bits" "fst e = 2 ^ k"
      using flag_single_bit by blast
    with assms show "flag_set t e = flag_set t' e"
      by (simp add: flag_set_def and_single_bit)
  qed
  then show ?thesis
    by (simp only: getFlags_table)
qed

section \<open>The address slots\<close>

lemma first_nil_from:
  "first_nil i as = (if None \<in> set as then i + populated as else 0)"
  by (induction i as rule: first_nil.induct) (simp_all add: populated_def)

lemma first_nil_eq: "first_nil 0 as = (if None \<in> set as then populated as else 0)"
  by (simp add: first_nil_from)

lemma index_populated:
  assumes "j < populated as"
  shows "\<exists>a. index as j = Some (Some a)"
proof -
  let ?P = "\<lambda>a :: addr option. a \<noteq> None"
  from assms have j: "j < length (takeWhile ?P as)"
    by (simp add: populated_def)
  then have "takeWhile ?P as ! j \<in> set (takeWhile ?P as)"
    by (rule nth_mem)
  then have "takeWhile ?P as ! j \<noteq> None"
    by (rule set_takeWhileD [THEN conjunct2])
  moreover have "takeWhile ?P as ! j = as ! j"
    using j by (rule takeWhile_nth)
  moreover have "j < length as"
    using j length_takeWhile_le [of ?P as] by simp
  ultimately show ?thesis
    by (auto simp: index_def)
qed

lemma index_first_nil: "j < first_nil 0 as \<Longrightarrow> \<exists>a. index as j = Some (Some a)"
  by (rule index_populated) (simp add: first_nil_eq split: if_splits)

section \<open>No index is out of range\<close>

lemma destination_of_no_panic:
  "2 \<le> first_nil 0 as \<Longrightarrow> destination_of (first_nil 0 as) as \<noteq> Inl Panic"
  using index_first_nil [of 0 as] index_first_nil [of 2 as]
  by (auto simp: destination_of_def Let_def split: option.splits addr.splits)

lemma gateway_of_no_panic:
  "2 \<le> first_nil 0 as \<Longrightarrow> gateway_of (first_nil 0 as) as \<noteq> Inl Panic"
  using index_first_nil [of 1 as]
  by (auto simp: gateway_of_def Let_def split: option.splits addr.splits)

lemma dump_no_panic: "dump ifs i msg \<noteq> Panic"
proof (cases "2 \<le> first_nil 0 (Addrs msg)")
  case True
  from destination_of_no_panic [OF True] gateway_of_no_panic [OF True] show ?thesis
    by (auto simp: dump_def Let_def split: option.splits sum.splits)
next
  case False
  then show ?thesis
    by (auto simp: dump_def Let_def split: option.splits sum.splits)
qed

section \<open>The prefix length is the number of leading one-bits\<close>

lemma top_bit: "(v :: 8 word) AND 0x80 \<noteq> 0 \<longleftrightarrow> bit v 7"
  using and_exp_eq_0_iff_not_bit [of v 7] by simp

lemma bits8_shl: "bits8 (push_bit 1 v) = tl (bits8 v) @ [False]"
  unfolding bits8_def by (simp only: bit_push_bit_iff) simp

lemma length_bits8: "length (bits8 v) = 8"
  by (simp add: bits8_def)

lemma bits8_inject: "bits8 v = bits8 w \<Longrightarrow> v = w"
proof (rule bit_word_eqI)
  fix n
  assume eq: "bits8 v = bits8 w" and "n < LENGTH(8)"
  then have "n \<in> {0, 1, 2, 3, 4, 5, 6, 7}"
    by auto
  with eq show "bit v n \<longleftrightarrow> bit w n"
    by (auto simp: bits8_def)
qed

lemma bits8_ff: "bits8 0xff = [True, True, True, True, True, True, True, True]"
  by (simp add: bits8_def)

lemma zero_iff_bits8: "v = 0 \<longleftrightarrow> list_all Not (bits8 v)"
proof
  assume "v = 0" then show "list_all Not (bits8 v)" by (simp add: bits8_def)
next
  assume "list_all Not (bits8 v)"
  then have "bits8 v = bits8 0" by (simp add: bits8_def)
  then show "v = 0" by (rule bits8_inject)
qed

lemma ff_iff_bits8: "v = 0xff \<longleftrightarrow> list_all id (bits8 v)"
proof
  assume "v = 0xff" then show "list_all id (bits8 v)" by (simp add: bits8_ff)
next
  assume "list_all id (bits8 v)"
  then have "bits8 v = bits8 0xff" unfolding bits8_ff by (simp add: bits8_def)
  then show "v = 0xff" by (rule bits8_inject)
qed

lemma leading_ones_snoc_False: "leading_ones (bs @ [False]) = leading_ones bs"
  by (induction bs) (simp_all add: leading_ones_def)

lemma contiguous_snoc_False: "contiguous (bs @ [False]) = contiguous bs"
  by (induction bs) (simp_all add: contiguous_def)

lemma ones_loop_spec:
  "ones_loop n v = (n + leading_ones (bits8 v), snd (ones_loop n v)) \<and>
   (snd (ones_loop n v) = 0 \<longleftrightarrow> contiguous (bits8 v))"
proof (induction n v rule: ones_loop.induct)
  case (1 n v)
  show ?case
  proof (cases "bit v 7")
    case True
    then have step: "ones_loop n v = ones_loop (n + 1) (push_bit 1 v)"
      by (subst ones_loop.simps) (simp only: top_bit if_True)
    from True have hd: "bits8 v = True # tl (bits8 v)"
      by (simp add: bits8_def)
    have lo: "leading_ones (bits8 v) = Suc (leading_ones (bits8 (push_bit 1 v)))"
      by (subst hd) (simp only: bits8_shl leading_ones_snoc_False, simp add: leading_ones_def)
    have co: "contiguous (bits8 v) = contiguous (bits8 (push_bit 1 v))"
      by (subst hd) (simp only: bits8_shl contiguous_snoc_False, simp add: contiguous_def)
    from True have "v AND 0x80 \<noteq> 0" by (simp only: top_bit)
    from "1.IH" [OF this] show ?thesis
      unfolding step lo co by simp
  next
    case False
    then have stop: "ones_loop n v = (n, v)"
      by (subst ones_loop.simps) (simp only: top_bit if_False)
    from False have hd: "bits8 v = False # tl (bits8 v)"
      by (simp add: bits8_def)
    have "leading_ones (bits8 v) = 0"
      by (subst hd) (simp add: leading_ones_def)
    moreover have "contiguous (bits8 v) = list_all Not (bits8 v)"
      by (subst hd, subst (2) hd) (simp add: contiguous_def)
    ultimately show ?thesis
      unfolding stop by (simp add: zero_iff_bits8)
  qed
qed

lemma rest_nonzero_bits: "rest_nonzero bs \<longleftrightarrow> \<not> list_all Not (mask_bits bs)"
  by (induction bs) (simp_all add: mask_bits_def zero_iff_bits8)

lemma leading_ones_all: "list_all id xs \<Longrightarrow> leading_ones (xs @ ys) = length xs + leading_ones ys"
  by (induction xs) (simp_all add: leading_ones_def)

lemma contiguous_all: "list_all id xs \<Longrightarrow> contiguous (xs @ ys) = contiguous ys"
  by (induction xs) (simp_all add: contiguous_def)

lemma leading_ones_stop: "\<not> list_all id xs \<Longrightarrow> leading_ones (xs @ ys) = leading_ones xs"
  by (induction xs) (simp_all add: leading_ones_def)

lemma contiguous_stop:
  "\<not> list_all id xs \<Longrightarrow> contiguous (xs @ ys) \<longleftrightarrow> contiguous xs \<and> list_all Not ys"
  by (induction xs) (simp_all add: contiguous_def)

lemma simpleMaskLength_from_spec:
  "simpleMaskLength_from n m =
    (if contiguous (mask_bits m) then int (n + leading_ones (mask_bits m)) else - 1)"
proof (induction m arbitrary: n)
  case Nil
  show ?case by (simp add: mask_bits_def contiguous_def leading_ones_def)
next
  case (Cons v rest)
  have mb: "mask_bits (v # rest) = bits8 v @ mask_bits rest"
    by (simp add: mask_bits_def)
  show ?case
  proof (cases "v = 0xff")
    case True
    then have all: "list_all id (bits8 v)" by (simp add: bits8_ff)
    show ?thesis
      unfolding mb leading_ones_all [OF all] contiguous_all [OF all]
      using True by (simp add: Cons.IH length_bits8)
  next
    case False
    then have stop: "\<not> list_all id (bits8 v)" by (simp add: ff_iff_bits8)
    obtain n' v' where ol: "ones_loop n v = (n', v')" by (cases "ones_loop n v")
    with ones_loop_spec [of n v] have n': "n' = n + leading_ones (bits8 v)"
      and v': "v' = 0 \<longleftrightarrow> contiguous (bits8 v)" by simp_all
    show ?thesis
      unfolding mb leading_ones_stop [OF stop] contiguous_stop [OF stop]
      using False by (simp add: ol n' v' rest_nonzero_bits)
  qed
qed

lemma Size_spec:
  "fst (Size m) = (if contiguous (mask_bits m) then int (leading_ones (mask_bits m)) else 0)"
  by (simp add: Size_def simpleMaskLength_def simpleMaskLength_from_spec Let_def)



lemma Size_examples:
  "Size (IPv4Mask 0 0 0 0) = (0, 32)"
  "Size (IPv4Mask 255 255 255 0) = (24, 32)"
  "Size (IPv4Mask 255 255 255 255) = (32, 32)"
  "Size (IPv4Mask 255 0 255 0) = (0, 0)"
  by (simp_all add: Size_def IPv4Mask_def simpleMaskLength_def ones_loop.simps)

section \<open>What a written row says about its message\<close>

lemma destination_of_Inl:
  "destination_of len as = Inl out \<Longrightarrow>
    out \<in> {Panic, Skipped DestNotInet4, Skipped MaskNotAFINET, Skipped MaskNotInet4}"
  by (auto simp: destination_of_def Let_def split: option.splits addr.splits if_splits)

lemma gateway_of_Inl:
  "gateway_of len as = Inl out \<Longrightarrow>
    out \<in> {Panic, Skipped GatewayInetUnknown, Skipped GatewayLinkUnknown, Skipped GatewayUnknown}"
  by (auto simp: gateway_of_def Let_def split: option.splits addr.splits if_splits)

lemma dump_Row:
  assumes "dump ifs i msg = Row d g n fs"
  shows "\<not> (isFlagGateway (Flags msg) \<and> isFlagHost (Flags msg) \<and> isFlagIFRef (Flags msg))"
    and "ifs (Index msg) = Some n"
    and "2 \<le> first_nil 0 (Addrs msg)"
    and "destination_of (first_nil 0 (Addrs msg)) (Addrs msg) = Inr d"
    and "gateway_of (first_nil 0 (Addrs msg)) (Addrs msg) = Inr g"
    and "fs = getFlags (Flags msg)"
  using assms
  by (auto simp: dump_def Let_def split: if_splits option.splits sum.splits
      dest: destination_of_Inl gateway_of_Inl)

section \<open>Evaluation of the formatting\<close>


lemma fmt_x_byte_digits:
  "fmt_x_byte b =
    (if unat b < 16 then [digit (unat b)] else [digit (unat b div 16), digit (unat b mod 16)])"
proof -
  have "unat b < 2 ^ LENGTH(8)"
    by (rule unsigned_less)
  then have "unat b div 16 < 16"
    by simp
  then show ?thesis
    by (simp add: fmt_x_byte_def fmt_base.simps [of 16 "unat b"]
        fmt_base.simps [of 16 "unat b div 16"])
qed

lemma address_count_validation:
  assumes "\<not> (isFlagGateway (Flags msg) \<and> isFlagHost (Flags msg) \<and> isFlagIFRef (Flags msg))"
    and "ifs (Index msg) = Some name"
    and "None \<in> set (Addrs msg)"
  shows "dump ifs i msg = Skipped TooFewAddrs \<longleftrightarrow> populated (Addrs msg) < 2"
  using assms
  by (auto simp: dump_def Let_def first_nil_eq split: sum.splits
      dest: destination_of_Inl gateway_of_Inl)


section \<open>The effect of a run\<close>






lemma range_msgs_effect:
  "range_msgs ifs i msgs w =
    w\<lparr>stdout := stdout w @ printed ifs i msgs, table := table w @ written ifs i msgs\<rparr>"
proof (induction msgs arbitrary: i w)
  case Nil
  show ?case by simp
next
  case (Cons m msgs)
  show ?case
  proof (cases m)
    case (RouteMessage r)
    with dump_no_panic [of ifs i r] show ?thesis
      by (cases "dump ifs i r") (simp_all add: Cons)
  next
    case OtherMessage
    then show ?thesis
      by (simp add: Cons)
  qed
qed

lemma main_eq:
  "main FetchRIB ParseRIB ifs =
    (case FetchRIB of
       Inl err \<Rightarrow> \<lparr>stdout = [Banner], table = [], stderr = [err], status = 1\<rparr>
     | Inr pkt \<Rightarrow>
         (case ParseRIB pkt of
            Inl err \<Rightarrow> \<lparr>stdout = [Banner], table = [], stderr = [err], status = 1\<rparr>
          | Inr msgs \<Rightarrow>
              \<lparr>stdout = Banner # printed ifs 0 msgs, table = header # written ifs 0 msgs,
               stderr = [], status = 0\<rparr>))"
  by (simp add: main_def range_msgs_effect split: sum.splits)



lemma default_route_row:
  assumes "Flags msg = RTF_UP OR RTF_GATEWAY" and "ifs (Index msg) = Some ''en0''"
    and "Addrs msg =
      Some (Inet4Addr 0 0 0 0) # Some (Inet4Addr 10 0 0 1) # Some (Inet4Addr 0 0 0 0) # None # rest"
  shows "dump ifs i msg = Row ''default'' ''10.0.0.1'' ''en0'' [''RTF_GATEWAY'', ''RTF_UP'']"
proof -
  have flags: "getFlags (RTF_UP OR RTF_GATEWAY) = [''RTF_GATEWAY'', ''RTF_UP'']"
    by (simp add: getFlags_concat flag_table_def flag_set_def RTF_defs)
  have keep: "\<not> isFlagHost (RTF_UP OR RTF_GATEWAY)"
    by (simp add: isFlagHost_def RTF_defs)
  have zero: "fst (Size (IPv4Mask 0 0 0 0)) = 0"
    by (simp add: Size_spec IPv4Mask_def mask_bits_def bits8_def leading_ones_def)
  have gw: "dotted 10 0 0 1 = ''10.0.0.1''"
    by (simp add: dotted_def fmt_d_byte_def fmt_base.simps digit_def)
  show ?thesis
    by (simp add: dump_def assms flags keep destination_of_def gateway_of_def index_def zero gw
        AF_INET_def)
qed

lemma default_route_text:
  "row_text ''default'' ''10.0.0.1'' ''en0'' [''RTF_GATEWAY'', ''RTF_UP''] =
    ''default'' @ [CHR 0x09] @ ''10.0.0.1'' @ [CHR 0x09] @ ''en0'' @ [CHR 0x09] @
    ''[RTF_GATEWAY RTF_UP]'' @ [CHR 0x0A]"
  by (simp add: row_text_def fmt_v_strings_def)



section \<open>Claims\<close>

subsection \<open>C1: the destination of a message with a netmask\<close>




subsection \<open>C2: the count of populated slots\<close>

text \<open>
  Claim C2 says that the count is the number of slots before the first nil slot and that
  a message with a populated destination and gateway passes. The loop of \<^verbatim>\<open>dump\<close>
  assigns the count only when it meets a nil slot. For a message all of whose eight slots
  are populated the count stays 0, and the message is skipped with the line about too few
  addresses, although eight slots are populated.
\<close>

theorem all_slots_populated_skipped:
  "populated (Addrs all_slots_route) = 8 \<and> first_nil 0 (Addrs all_slots_route) = 0 \<and>
   en0 (Index all_slots_route) = Some ''en0'' \<and>
   dump en0 0 all_slots_route = Skipped TooFewAddrs"
proof (intro conjI)
  show "populated (Addrs all_slots_route) = 8"
    by (simp add: all_slots_route_def populated_def)
  show "first_nil 0 (Addrs all_slots_route) = 0"
    by (simp add: all_slots_route_def)
  show "en0 (Index all_slots_route) = Some ''en0''"
    by (simp add: en0_def all_slots_route_def)
  show "dump en0 0 all_slots_route = Skipped TooFewAddrs"
    by code_simp
qed

subsection \<open>C3: the drop rule\<close>

text \<open>
  Claim C3. A message whose flags have the gateway, host and interface-reference bits all
  set is dropped by \<^verbatim>\<open>dump\<close> whatever its interface index and its addresses are:
  nothing is printed and nothing is written, and the loop goes on with the next message.
  No row that is written carries the three names \<open>RTF_GATEWAY\<close>, \<open>RTF_HOST\<close> and
  \<open>RTF_IFREF\<close> together.
\<close>

theorem drop_rule:
  "(isFlagGateway (Flags msg) \<and> isFlagHost (Flags msg) \<and> isFlagIFRef (Flags msg) \<longrightarrow>
      dump ifs i msg = Dropped \<and>
      range_msgs ifs i (RouteMessage msg # msgs) w = range_msgs ifs (Suc i) msgs w) \<and>
   (dump ifs i msg = Row d g n fs \<longrightarrow>
      \<not> {''RTF_GATEWAY'', ''RTF_HOST'', ''RTF_IFREF''} \<subseteq> set fs)"
proof (intro conjI impI)
  assume flags: "isFlagGateway (Flags msg) \<and> isFlagHost (Flags msg) \<and> isFlagIFRef (Flags msg)"
  then show dropped: "dump ifs i msg = Dropped"
    by (simp add: dump_def)
  then show "range_msgs ifs i (RouteMessage msg # msgs) w = range_msgs ifs (Suc i) msgs w"
    by simp
next
  assume row: "dump ifs i msg = Row d g n fs"
  have g: "(RTF_GATEWAY, ''RTF_GATEWAY'') \<in> set flag_table"
    and h: "(RTF_HOST, ''RTF_HOST'') \<in> set flag_table"
    and r: "(RTF_IFREF, ''RTF_IFREF'') \<in> set flag_table"
    by (simp_all add: flag_table_def)
  show "\<not> {''RTF_GATEWAY'', ''RTF_HOST'', ''RTF_IFREF''} \<subseteq> set fs"
  proof
    assume "{''RTF_GATEWAY'', ''RTF_HOST'', ''RTF_IFREF''} \<subseteq> set fs"
    then have "''RTF_GATEWAY'' \<in> set (getFlags (Flags msg))"
      and "''RTF_HOST'' \<in> set (getFlags (Flags msg))"
      and "''RTF_IFREF'' \<in> set (getFlags (Flags msg))"
      unfolding dump_Row(6) [OF row] by simp_all
    with getFlags_member [OF g, of "Flags msg"] getFlags_member [OF h, of "Flags msg"]
      getFlags_member [OF r, of "Flags msg"]
    have "isFlagGateway (Flags msg) \<and> isFlagHost (Flags msg) \<and> isFlagIFRef (Flags msg)"
      by (simp add: isFlagGateway_def isFlagHost_def isFlagIFRef_def)
    with dump_Row(1) [OF row] show False
      by simp
  qed
qed

theorem drop_rule_witness:
  "isFlagGateway (Flags self_route) \<and> isFlagHost (Flags self_route) \<and>
   isFlagIFRef (Flags self_route) \<and> dump en0 0 self_route = Dropped \<and>
   dump en0 0 default_route = Row ''default'' ''10.0.0.1'' ''en0'' [''RTF_GATEWAY'', ''RTF_UP''] \<and>
   \<not> {''RTF_GATEWAY'', ''RTF_HOST'', ''RTF_IFREF''} \<subseteq> set [''RTF_GATEWAY'', ''RTF_UP'']"
proof -
  have flags: "isFlagGateway (Flags self_route) \<and> isFlagHost (Flags self_route) \<and>
      isFlagIFRef (Flags self_route)"
    by (simp add: self_route_def isFlagGateway_def isFlagHost_def isFlagIFRef_def RTF_defs)
  with drop_rule [where msg = self_route and ifs = en0 and i = 0]
  have dropped: "dump en0 0 self_route = Dropped"
    by blast
  have row: "dump en0 0 default_route =
      Row ''default'' ''10.0.0.1'' ''en0'' [''RTF_GATEWAY'', ''RTF_UP'']"
    by (rule default_route_row) (simp_all add: default_route_def en0_def)
  with drop_rule [where msg = default_route and ifs = en0 and i = 0 and d = "''default''"
      and g = "''10.0.0.1''" and n = "''en0''" and fs = "[''RTF_GATEWAY'', ''RTF_UP'']"]
  have "\<not> {''RTF_GATEWAY'', ''RTF_HOST'', ''RTF_IFREF''} \<subseteq> set [''RTF_GATEWAY'', ''RTF_UP'']"
    by blast
  with flags dropped row show ?thesis
    by blast
qed

subsection \<open>C4: a link-layer gateway\<close>

text \<open>
  Claim C4, as amended. Let a row be written for a message whose slot 1 holds a link-layer
  address. If exactly three slots precede the first nil slot, the gateway is \<open>link#\<close>
  followed by the interface index of the link address itself, in decimal. Otherwise, with
  two slots or with four and more, the gateway is the hardware bytes joined by colons,
  each byte as one lower-case hexadecimal digit when it is below 16 and as two digits
  when it is not.
\<close>

theorem gateway_link:
  assumes "dump ifs i msg = Row d g n fs"
    and "index (Addrs msg) 1 = Some (Some (LinkAddr li ln hw))"
  shows "g =
      (if populated (Addrs msg) = 3 then ''link#'' @ fmt_d li
       else Join (map fmt_x_byte hw) '':'') \<and>
    map fmt_x_byte hw =
      map (\<lambda>b. if unat b < 16 then [digit (unat b)]
        else [digit (unat b div 16), digit (unat b mod 16)]) hw"
proof
  from dump_Row(3) [OF assms(1)] have "first_nil 0 (Addrs msg) = populated (Addrs msg)"
    by (simp add: first_nil_eq split: if_splits)
  with dump_Row(5) [OF assms(1)]
  have "gateway_of (populated (Addrs msg)) (Addrs msg) = Inr g"
    by simp
  moreover from assms(2) have "index (Addrs msg) (Suc 0) = Some (Some (LinkAddr li ln hw))"
    by simp
  ultimately show "g =
      (if populated (Addrs msg) = 3 then ''link#'' @ fmt_d li
       else Join (map fmt_x_byte hw) '':'')"
    by (auto simp: gateway_of_def AF_INET_def AF_LINK_def split: if_splits)
  show "map fmt_x_byte hw =
      map (\<lambda>b. if unat b < 16 then [digit (unat b)]
        else [digit (unat b div 16), digit (unat b mod 16)]) hw"
    by (simp add: fmt_x_byte_digits)
qed

theorem gateway_link_witness:
  "dump en0 0 host_route = Row ''10.0.0.9'' ''2:ab'' ''en0'' [''RTF_UP''] \<and>
   index (Addrs host_route) 1 = Some (Some (LinkAddr 7 ''en1'' [0x02, 0xab])) \<and>
   populated (Addrs host_route) = 2 \<and>
   ''2:ab'' = Join (map fmt_x_byte [0x02, 0xab]) '':'' \<and>
   dump en0 0 net_route = Row ''10.0.0.0/24'' ''link#7'' ''en0'' [''RTF_UP''] \<and>
   index (Addrs net_route) 1 = Some (Some (LinkAddr 7 ''en1'' [0x02, 0xab])) \<and>
   populated (Addrs net_route) = 3 \<and>
   ''link#7'' = ''link#'' @ fmt_d 7"
proof -
  have h: "dump en0 0 host_route = Row ''10.0.0.9'' ''2:ab'' ''en0'' [''RTF_UP'']"
    and n: "dump en0 0 net_route = Row ''10.0.0.0/24'' ''link#7'' ''en0'' [''RTF_UP'']"
    by code_simp+
  have hi: "index (Addrs host_route) 1 = Some (Some (LinkAddr 7 ''en1'' [0x02, 0xab]))"
    and ni: "index (Addrs net_route) 1 = Some (Some (LinkAddr 7 ''en1'' [0x02, 0xab]))"
    by (simp_all add: host_route_def net_route_def index_def)
  have hp: "populated (Addrs host_route) = 2" and np: "populated (Addrs net_route) = 3"
    by (simp_all add: host_route_def net_route_def populated_def)
  from gateway_link [OF h hi] hp have "''2:ab'' = Join (map fmt_x_byte [0x02, 0xab]) '':''"
    by simp
  moreover from gateway_link [OF n ni] np have "''link#7'' = ''link#'' @ fmt_d 7"
    by simp
  ultimately show ?thesis
    using h n hi ni hp np by blast
qed

text \<open>
  The claim as first stated asks for \<open>link#7\<close> whenever a netmask slot is present.
  With a fourth slot populated as well, the netmask is present and the gateway is the
  hardware address.
\<close>

theorem gateway_link_counterexample:
  "dump en0 0 genmask_route = Row ''10.0.0.0'' ''2:ab'' ''en0'' [''RTF_UP''] \<and>
   index (Addrs genmask_route) 1 = Some (Some (LinkAddr 7 ''en1'' [0x02, 0xab])) \<and>
   index (Addrs genmask_route) 2 = Some (Some (Inet4Addr 255 255 255 0)) \<and>
   ''2:ab'' \<noteq> ''link#'' @ fmt_d 7"
proof (intro conjI)
  show "dump en0 0 genmask_route = Row ''10.0.0.0'' ''2:ab'' ''en0'' [''RTF_UP'']"
    by code_simp
  show "index (Addrs genmask_route) 1 = Some (Some (LinkAddr 7 ''en1'' [0x02, 0xab]))"
    and "index (Addrs genmask_route) 2 = Some (Some (Inet4Addr 255 255 255 0))"
    by (simp_all add: genmask_route_def index_def)
  show "''2:ab'' \<noteq> ''link#'' @ fmt_d 7"
    by simp
qed

subsection \<open>C5: one default route, end to end\<close>

text \<open>
  Claim C5, as amended. When the fetch succeeds and the buffer parses to one route message
  with destination 0.0.0.0, gateway 10.0.0.1, netmask 0.0.0.0, a nil fourth slot, flags
  \<open>UP|GATEWAY\<close> and an interface index that resolves to \<open>en0\<close>, the program prints its
  banner, writes the header row and exactly one more row, and exits with status 0. The
  four cells of that row are \<open>default\<close>, \<open>10.0.0.1\<close>, \<open>en0\<close> and
  \<open>[RTF_GATEWAY RTF_UP]\<close>: the flag names between square brackets, separated by a space.
\<close>

theorem default_route_run:
  assumes "FetchRIB = Inr pkt" and "ParseRIB pkt = Inr [RouteMessage msg]"
    and "Flags msg = RTF_UP OR RTF_GATEWAY" and "ifs (Index msg) = Some ''en0''"
    and "Addrs msg =
      Some (Inet4Addr 0 0 0 0) # Some (Inet4Addr 10 0 0 1) # Some (Inet4Addr 0 0 0 0) # None # rest"
  shows "main FetchRIB ParseRIB ifs =
    \<lparr>stdout = [Banner],
     table = [header,
       ''default'' @ [CHR 0x09] @ ''10.0.0.1'' @ [CHR 0x09] @ ''en0'' @ [CHR 0x09] @
       ''[RTF_GATEWAY RTF_UP]'' @ [CHR 0x0A]],
     stderr = [], status = 0\<rparr>"
proof -
  from assms(3-5) have "dump ifs 0 msg =
      Row ''default'' ''10.0.0.1'' ''en0'' [''RTF_GATEWAY'', ''RTF_UP'']"
    by (rule default_route_row [where ifs = ifs and msg = msg])
  with assms(1,2) show ?thesis
    by (simp add: main_eq default_route_text)
qed

theorem default_route_run_witness:
  "Flags default_route = RTF_UP OR RTF_GATEWAY \<and> en0 (Index default_route) = Some ''en0'' \<and>
   Addrs default_route =
     Some (Inet4Addr 0 0 0 0) # Some (Inet4Addr 10 0 0 1) # Some (Inet4Addr 0 0 0 0) # None #
     [None, None, None, None] \<and>
   main (Inr []) (\<lambda>pkt. Inr [RouteMessage default_route]) en0 =
    \<lparr>stdout = [Banner],
     table = [header,
       ''default'' @ [CHR 0x09] @ ''10.0.0.1'' @ [CHR 0x09] @ ''en0'' @ [CHR 0x09] @
       ''[RTF_GATEWAY RTF_UP]'' @ [CHR 0x0A]],
     stderr = ([] :: unit list), status = 0\<rparr>"
proof -
  have f: "Flags default_route = RTF_UP OR RTF_GATEWAY"
    and n: "en0 (Index default_route) = Some ''en0''"
    and a: "Addrs default_route =
     Some (Inet4Addr 0 0 0 0) # Some (Inet4Addr 10 0 0 1) # Some (Inet4Addr 0 0 0 0) # None #
     [None, None, None, None]"
    by (simp_all add: default_route_def en0_def)
  from default_route_run [where FetchRIB = "Inr []" and pkt = "[]"
      and ParseRIB = "\<lambda>pkt. Inr [RouteMessage default_route]" and msg = default_route
      and ifs = en0 and rest = "[None, None, None, None]"] f n a
  show ?thesis
    by simp
qed

text \<open>
  The claim as first stated has the flags cell \<open>RTF_GATEWAY,RTF_UP\<close>, joined by a comma.
\<close>

theorem default_route_flags_field:
  "table (main (Inr []) (\<lambda>pkt. Inr [RouteMessage default_route]) en0 :: unit world) =
     [header,
       ''default'' @ [CHR 0x09] @ ''10.0.0.1'' @ [CHR 0x09] @ ''en0'' @ [CHR 0x09] @
       ''[RTF_GATEWAY RTF_UP]'' @ [CHR 0x0A]] \<and>
   fmt_v_strings (getFlags (Flags default_route)) \<noteq> ''RTF_GATEWAY,RTF_UP''"
proof
  have "dump en0 0 default_route =
      Row ''default'' ''10.0.0.1'' ''en0'' [''RTF_GATEWAY'', ''RTF_UP'']"
    by (rule default_route_row) (simp_all add: default_route_def en0_def)
  then show "table (main (Inr []) (\<lambda>pkt. Inr [RouteMessage default_route]) en0 :: unit world) =
     [header,
       ''default'' @ [CHR 0x09] @ ''10.0.0.1'' @ [CHR 0x09] @ ''en0'' @ [CHR 0x09] @
       ''[RTF_GATEWAY RTF_UP]'' @ [CHR 0x0A]]"
    by (simp add: main_eq default_route_text)
  show "fmt_v_strings (getFlags (Flags default_route)) \<noteq> ''RTF_GATEWAY,RTF_UP''"
    by (simp add: fmt_v_strings_def)
qed

subsection \<open>C6: the order of the flag names\<close>

text \<open>
  Claim C6, as amended. For every flags value, \<^const>\<open>getFlags\<close> returns the names of
  the entries of one fixed table whose constant is set in the value, in the order of the
  table. Each constant of the table is a single bit. The table is in ascending
  alphabetical order of the names, not in ascending order of the constants, so that
  \<open>RTF_GATEWAY\<close> comes before \<open>RTF_UP\<close>. Bits that the table does not have are
  ignored: two values that agree on the bits of the table give the same names.
\<close>

theorem getFlags_scan_order:
  "getFlags t = map snd (filter (\<lambda>e. t AND fst e = fst e) flag_table) \<and>
   map fst flag_table = map (\<lambda>k. 2 ^ k) flag_bits \<and>
   sorted_wrt (<) (map snd flag_table) \<and>
   ((\<forall>k\<in>set flag_bits. bit t k = bit t' k) \<longrightarrow> getFlags t = getFlags t')"
proof (intro conjI impI)
  show "getFlags t = map snd (filter (\<lambda>e. t AND fst e = fst e) flag_table)"
    using getFlags_table [of t] by (simp add: flag_set_def [abs_def])
  show "map fst flag_table = map (\<lambda>k. 2 ^ k) flag_bits"
    by (rule flag_table_bits)
  show "sorted_wrt (<) (map snd flag_table)"
    by (simp add: flag_table_def less_char_def)
next
  assume "\<forall>k\<in>set flag_bits. bit t k = bit t' k"
  then show "getFlags t = getFlags t'"
    by (rule getFlags_known_bits)
qed

theorem getFlags_scan_order_witness:
  "list_all (\<lambda>k. bit (0x2003 :: int) k = bit (3 :: int) k) flag_bits \<and>
   getFlags 0x2003 = getFlags 3"
proof -
  have same: "list_all (\<lambda>k. bit (0x2003 :: int) k = bit (3 :: int) k) flag_bits"
    by (simp add: flag_bits_def)
  then have "\<forall>k\<in>set flag_bits. bit (0x2003 :: int) k = bit (3 :: int) k"
    by (simp only: list_all_iff)
  with getFlags_scan_order [of "0x2003" 3] have "getFlags 0x2003 = getFlags 3"
    by blast
  with same show ?thesis
    by simp
qed

text \<open>
  The claim as first stated has \<open>RTF_UP\<close>, the constant of lowest value, tested and
  emitted before \<open>RTF_GATEWAY\<close>.
\<close>

theorem getFlags_up_after_gateway:
  "getFlags (RTF_UP OR RTF_GATEWAY) = [''RTF_GATEWAY'', ''RTF_UP''] \<and> RTF_UP < RTF_GATEWAY"
  by (simp add: getFlags_concat flag_table_def flag_set_def RTF_defs)

subsection \<open>C7: fatal and recoverable errors\<close>




subsection \<open>C8: where the diagnostics go\<close>




subsection \<open>C9: the decoder is a fixed scan\<close>

text \<open>
  Claim C9. For every flags value \<open>t\<close>, the list that \<^const>\<open>getFlags\<close> returns has no
  name twice; for each of the entries of the table it contains the entry's name exactly
  when the entry's constant, a single bit, is set in \<open>t\<close>; and it is a subsequence of one
  fixed list of twenty-five names, so the order of the names does not depend on \<open>t\<close>.
\<close>

theorem getFlags_fixed_order:
  "distinct (getFlags t) \<and>
   (\<forall>e\<in>set flag_table.
      (snd e \<in> set (getFlags t) \<longleftrightarrow> t AND fst e = fst e) \<and> (\<exists>k. fst e = 2 ^ k)) \<and>
   subseq (getFlags t) flag_names \<and> length flag_names = 25 \<and> distinct flag_names"
proof (intro conjI ballI)
  show "distinct (getFlags t)"
    by (rule distinct_getFlags)
  show "subseq (getFlags t) flag_names"
    by (rule subseq_getFlags)
  show "length flag_names = 25"
    by (rule length_flag_names)
  show "distinct flag_names"
    by (rule distinct_flag_names)
next
  fix e
  assume e: "e \<in> set flag_table"
  then show "snd e \<in> set (getFlags t) \<longleftrightarrow> t AND fst e = fst e"
    by (rule getFlags_member)
  from flag_single_bit [OF e] show "\<exists>k. fst e = 2 ^ k"
    by blast
qed

theorem getFlags_fixed_order_witness:
  "(RTF_GATEWAY, ''RTF_GATEWAY'') \<in> set flag_table \<and> ''RTF_GATEWAY'' \<in> set (getFlags 3) \<and>
   (RTF_HOST, ''RTF_HOST'') \<in> set flag_table \<and> ''RTF_HOST'' \<notin> set (getFlags 3) \<and>
   distinct (getFlags 3) \<and> subseq (getFlags 3) flag_names"
proof -
  have g: "(RTF_GATEWAY, ''RTF_GATEWAY'') \<in> set flag_table"
    and h: "(RTF_HOST, ''RTF_HOST'') \<in> set flag_table"
    by (simp_all add: flag_table_def)
  from getFlags_fixed_order [of 3]
  have all: "\<forall>e\<in>set flag_table. snd e \<in> set (getFlags 3) \<longleftrightarrow> 3 AND fst e = fst e"
    and rest: "distinct (getFlags 3)" "subseq (getFlags 3) flag_names"
    by blast+
  from all g have "''RTF_GATEWAY'' \<in> set (getFlags 3) \<longleftrightarrow> 3 AND RTF_GATEWAY = RTF_GATEWAY"
    by fastforce
  moreover from all h have "''RTF_HOST'' \<in> set (getFlags 3) \<longleftrightarrow> 3 AND RTF_HOST = RTF_HOST"
    by fastforce
  ultimately show ?thesis
    using g h rest by (simp add: RTF_GATEWAY_def RTF_HOST_def)
qed

subsection \<open>C10: a link-layer gateway without hardware bytes\<close>



end
